theory Spec2Isabelle
  imports Complex_Main
begin

section \<open>Strings and regular expressions\<close>

text \<open>The built-in exceptions that the module can meet.\<close>

datatype py_error = KeyError | IndexError | ValueError | TypeError

text \<open>
  A Python string is modelled as a HOL \<open>string\<close>, each \<open>char\<close> read as a code point
  below 256. On those code points \<open>str.lower\<close> moves the ASCII capitals and the
  Latin-1 capitals (all of 0xC0..0xDE but the multiplication sign 0xD7) up by 32 and
  leaves every other character alone.
\<close>

definition lower_char :: "char \<Rightarrow> char" where
  "lower_char c =
     (let n = (of_char c :: nat)
      in if (65 \<le> n \<and> n \<le> 90) \<or> (192 \<le> n \<and> n \<le> 222 \<and> n \<noteq> 215)
         then char_of (n + 32) else c)"

definition lower :: "string \<Rightarrow> string" where
  "lower s = map lower_char s"

text \<open>
  The patterns of the module use a small part of Python's \<open>re\<close> syntax. The datatype
  has one constructor for each construct that occurs: a literal character, a character
  class (its members listed), \<open>.\<close>, sequencing, the greedy \<open>?\<close>, a counted repetition
  \<open>{n}\<close>, the greedy \<open>+\<close> over a character class (the only use of \<open>+\<close> is \<open>\d+\<close>), a
  numbered capturing group, and the assertions \<open>^\<close> and \<open>$\<close>. A non-capturing group
  \<open>(?:r)\<close> is \<open>r\<close> itself.
\<close>

datatype regex =
    Lit char
  | Cls string
  | AnyChar
  | Seq regex regex
  | Opt regex
  | Rep nat regex
  | ClsPlus string
  | Group nat regex
  | Bol
  | Eol

text \<open>
  A matcher state is the number of characters consumed, the rest of the subject and the
  groups captured so far. \<open>rmatch\<close> returns the states in which a match of the pattern
  can end, in the order a backtracking matcher tries them (a greedy operator tries the
  longer match first). With the flag \<open>re.I\<close> a character matches a literal or a class
  when their lower-case forms agree. \<open>$\<close> holds at the end of the subject and just
  before a newline that ends it; \<open>.\<close> matches every character but the newline.
\<close>

type_synonym mstate = "nat \<times> string \<times> (nat \<rightharpoonup> string)"

definition char_in :: "bool \<Rightarrow> string \<Rightarrow> char \<Rightarrow> bool" where
  "char_in icase cs c =
     (if icase then lower_char c \<in> set (map lower_char cs) else c \<in> set cs)"

definition step_char :: "(char \<Rightarrow> bool) \<Rightarrow> mstate \<Rightarrow> mstate list" where
  "step_char p st =
     (case st of (pos, rest, g) \<Rightarrow>
        (case rest of [] \<Rightarrow> [] | c # r \<Rightarrow> if p c then [(Suc pos, r, g)] else []))"

definition newline :: char where
  "newline = CHR 0x0A"

definition at_end :: "string \<Rightarrow> bool" where
  "at_end rest = (rest = [] \<or> rest = [newline])"

definition set_group :: "nat \<Rightarrow> mstate \<Rightarrow> mstate \<Rightarrow> mstate" where
  "set_group n st st' =
     (case st of (pos, rest, g) \<Rightarrow>
        (case st' of (pos', rest', g') \<Rightarrow>
           (pos', rest', g'(n \<mapsto> take (pos' - pos) rest))))"

fun run_plus :: "(char \<Rightarrow> bool) \<Rightarrow> nat \<Rightarrow> string \<Rightarrow> (nat \<rightharpoonup> string) \<Rightarrow> mstate list" where
  "run_plus p pos [] g = []"
| "run_plus p pos (c # r) g =
     (if p c then run_plus p (Suc pos) r g @ [(Suc pos, r, g)] else [])"

primrec rmatch :: "bool \<Rightarrow> regex \<Rightarrow> mstate \<Rightarrow> mstate list" where
  "rmatch icase (Lit c) st = step_char (char_in icase [c]) st"
| "rmatch icase (Cls cs) st = step_char (char_in icase cs) st"
| "rmatch icase AnyChar st = step_char (\<lambda>c. c \<noteq> newline) st"
| "rmatch icase (Seq a b) st = concat (map (rmatch icase b) (rmatch icase a st))"
| "rmatch icase (Opt a) st = rmatch icase a st @ [st]"
| "rmatch icase (Rep n a) st = ((\<lambda>sts. concat (map (rmatch icase a) sts)) ^^ n) [st]"
| "rmatch icase (ClsPlus cs) st =
     (case st of (pos, rest, g) \<Rightarrow> run_plus (char_in icase cs) pos rest g)"
| "rmatch icase (Group n a) st = map (set_group n st) (rmatch icase a st)"
| "rmatch icase Bol st = (case st of (pos, rest, g) \<Rightarrow> if pos = 0 then [st] else [])"
| "rmatch icase Eol st = (case st of (pos, rest, g) \<Rightarrow> if at_end rest then [st] else [])"

text \<open>
  \<open>pattern.match(s)\<close> matches at the start of \<open>s\<close> and returns the groups of the first
  match found, or \<open>None\<close>.
\<close>

definition re_match :: "bool \<Rightarrow> regex \<Rightarrow> string \<Rightarrow> (nat \<rightharpoonup> string) option" where
  "re_match icase r s =
     (case rmatch icase r (0, s, Map.empty) of
        [] \<Rightarrow> None
      | st # _ \<Rightarrow> Some (snd (snd st)))"

section \<open>Color\<close>

definition color_names :: "string list" where
  "color_names = [''aliceblue'', ''antiquewhite'', ''aqua'', ''aquamarine'', ''azure'',
    ''beige'', ''bisque'', ''black'', ''blanchedalmond'', ''blue'', ''blueviolet'',
    ''brown'', ''burlywood'', ''cadetblue'', ''chartreuse'', ''chocolate'', ''coral'',
    ''cornflowerblue'', ''cornsilk'', ''crimson'', ''cyan'', ''darkblue'', ''darkcyan'',
    ''darkgoldenrod'', ''darkgray'', ''darkgreen'', ''darkkhaki'', ''darkmagenta'',
    ''darkolivegreen'', ''darkorange'', ''darkorchid'', ''darkred'', ''darksalmon'',
    ''darkseagreen'', ''darkslateblue'', ''darkslategray'', ''darkturquoise'',
    ''darkviolet'', ''deeppink'', ''deepskyblue'', ''dimgray'', ''dodgerblue'',
    ''firebrick'', ''floralwhite'', ''forestgreen'', ''fuchsia'', ''gainsboro'',
    ''ghostwhite'', ''gold'', ''goldenrod'', ''gray'', ''green'', ''greenyellow'',
    ''honeydew'', ''hotpink'', ''indianred '', ''indigo '', ''ivory'', ''khaki'',
    ''lavender'', ''lavenderblush'', ''lawngreen'', ''lemonchiffon'', ''lightblue'',
    ''lightcoral'', ''lightcyan'', ''lightgoldenrodyellow'', ''lightgray'',
    ''lightgreen'', ''lightpink'', ''lightsalmon'', ''lightseagreen'', ''lightskyblue'',
    ''lightslategray'', ''lightsteelblue'', ''lightyellow'', ''lime'', ''limegreen'',
    ''linen'', ''magenta'', ''maroon'', ''mediumaquamarine'', ''mediumblue'',
    ''mediumorchid'', ''mediumpurple'', ''mediumseagreen'', ''mediumslateblue'',
    ''mediumspringgreen'', ''mediumturquoise'', ''mediumvioletred'', ''midnightblue'',
    ''mintcream'', ''mistyrose'', ''moccasin'', ''navajowhite'', ''navy'', ''oldlace'',
    ''olive'', ''olivedrab'', ''orange'', ''orangered'', ''orchid'', ''palegoldenrod'',
    ''palegreen'', ''paleturquoise'', ''palevioletred'', ''papayawhip'', ''peachpuff'',
    ''peru'', ''pink'', ''plum'', ''powderblue'', ''purple'', ''rebeccapurple'', ''red'',
    ''rosybrown'', ''royalblue'', ''saddlebrown'', ''salmon'', ''sandybrown'',
    ''seagreen'', ''seashell'', ''sienna'', ''silver'', ''skyblue'', ''slateblue'',
    ''slategray'', ''snow'', ''springgreen'', ''steelblue'', ''tan'', ''teal'',
    ''thistle'', ''tomato'', ''turquoise'', ''violet'', ''wheat'', ''white'',
    ''whitesmoke'', ''yellow'', ''yellowgreen'']"

text \<open>The pattern \<^verbatim>\<open>#[a-fA-F0-9]{3}(?:[a-fA-F0-9]{3})?$\<close>, compiled without flags.\<close>

definition hex_class :: string where
  "hex_class = ''abcdefABCDEF0123456789''"

definition color_re :: regex where
  "color_re =
     Seq (Lit (CHR ''#''))
       (Seq (Rep 3 (Cls hex_class))
         (Seq (Opt (Rep 3 (Cls hex_class))) Eol))"

text \<open>
  \<open>self.error(obj, value)\<close> raises a \<open>TraitError\<close> whose message is built from the
  rejected value; the error is modelled by the value it carries.
\<close>

datatype 'a trait_error = TraitError 'a | TraitErrorMessage string

definition Color_validate :: "string \<Rightarrow> string trait_error + string" where
  "Color_validate v =
     (if lower v \<in> set color_names \<or> re_match False color_re v \<noteq> None
      then Inr v
      else Inl (TraitError v))"

text \<open>
  The pattern in the words of the specification,
  \<^verbatim>\<open>^#[0-9a-fA-F]{3}([0-9a-fA-F]{3})?$\<close>: anchored at both ends, the class written in
  another order, and the optional part a capturing group.
\<close>

definition spec_hex_class :: string where
  "spec_hex_class = ''0123456789abcdefABCDEF''"

definition spec_color_re :: regex where
  "spec_color_re =
     Seq Bol
       (Seq (Lit (CHR ''#''))
         (Seq (Rep 3 (Cls spec_hex_class))
           (Seq (Opt (Group 1 (Rep 3 (Cls spec_hex_class)))) Eol)))"

section \<open>NumberFormat\<close>










section \<open>Date and time serialization\<close>

text \<open>
  A number on the wire is a Python \<open>int\<close> or a \<open>float\<close>. A float is represented by
  the rational it stands for; nothing below depends on its value, only on its being a
  float. The operator \<open>/\<close> on two ints is floor division in Python 2 and true division,
  with a float result, in Python 3; the module has no \<open>__future__\<close> import and runs on
  both, so the version is a parameter.
\<close>

datatype pynum = PyInt int | PyFloat rat

datatype py_version = Python2 | Python3

definition py_div :: "py_version \<Rightarrow> int \<Rightarrow> int \<Rightarrow> pynum" where
  "py_div ver a b =
     (case ver of Python2 \<Rightarrow> PyInt (a div b) | Python3 \<Rightarrow> PyFloat (Fract a b))"

fun py_add :: "pynum \<Rightarrow> int \<Rightarrow> pynum" where
  "py_add (PyInt a) b = PyInt (a + b)"
| "py_add (PyFloat a) b = PyFloat (a + of_int b)"

fun py_mul :: "pynum \<Rightarrow> int \<Rightarrow> pynum" where
  "py_mul (PyInt a) b = PyInt (a * b)"
| "py_mul (PyFloat a) b = PyFloat (a * of_int b)"

text \<open>
  A \<open>datetime.datetime\<close> value. \<open>tzinfo\<close> is \<open>None\<close> for a naive value and the UTC
  offset in minutes for an aware one.
\<close>

record datetime =
  year :: int
  month :: int
  day :: int
  hour :: int
  minute :: int
  second :: int
  microsecond :: int
  tzinfo :: "int option"

definition is_leap :: "int \<Rightarrow> bool" where
  "is_leap y = (y mod 4 = 0 \<and> (y mod 100 \<noteq> 0 \<or> y mod 400 = 0))"

definition days_in_month :: "int \<Rightarrow> int \<Rightarrow> int" where
  "days_in_month y m =
     (if m = 2 then (if is_leap y then 29 else 28)
      else if m = 4 \<or> m = 6 \<or> m = 9 \<or> m = 11 then 30 else 31)"

text \<open>The values the constructor of \<open>datetime.datetime\<close> accepts.\<close>

definition valid_datetime :: "datetime \<Rightarrow> bool" where
  "valid_datetime d =
     (1 \<le> year d \<and> year d \<le> 9999 \<and> 1 \<le> month d \<and> month d \<le> 12
      \<and> 1 \<le> day d \<and> day d \<le> days_in_month (year d) (month d)
      \<and> 0 \<le> hour d \<and> hour d \<le> 23 \<and> 0 \<le> minute d \<and> minute d \<le> 59
      \<and> 0 \<le> second d \<and> second d \<le> 59
      \<and> 0 \<le> microsecond d \<and> microsecond d \<le> 999999)"

text \<open>
  \<open>dt.datetime(y, mo, d, h, mi, s, us)\<close>: a \<open>TypeError\<close> when an argument is a float, a
  \<open>ValueError\<close> when one is out of range, otherwise the naive value.
\<close>

definition dt_datetime ::
  "pynum \<Rightarrow> pynum \<Rightarrow> pynum \<Rightarrow> pynum \<Rightarrow> pynum \<Rightarrow> pynum \<Rightarrow> pynum \<Rightarrow> py_error + datetime" where
  "dt_datetime y mo d h mi s us =
     (case (y, mo, d, h, mi, s, us) of
        (PyInt y', PyInt mo', PyInt d', PyInt h', PyInt mi', PyInt s', PyInt us') \<Rightarrow>
          (let r = \<lparr>year = y', month = mo', day = d', hour = h', minute = mi',
                    second = s', microsecond = us', tzinfo = None\<rparr>
           in if valid_datetime r then Inr r else Inl ValueError)
      | _ \<Rightarrow> Inl TypeError)"

definition datetime_to_json :: "py_version \<Rightarrow> datetime option \<Rightarrow> (string \<rightharpoonup> pynum) option" where
  "datetime_to_json ver pydt =
     (case pydt of
        None \<Rightarrow> None
      | Some d \<Rightarrow>
          Some [''year'' \<mapsto> PyInt (year d),
                ''month'' \<mapsto> PyInt (month d - 1),
                ''date'' \<mapsto> PyInt (day d),
                ''hours'' \<mapsto> PyInt (hour d),
                ''minutes'' \<mapsto> PyInt (minute d),
                ''seconds'' \<mapsto> PyInt (second d),
                ''milliseconds'' \<mapsto> py_div ver (microsecond d) 1000])"

text \<open>A key missing from the wire object raises \<open>KeyError\<close> before the constructor runs.\<close>

definition datetime_from_json :: "(string \<rightharpoonup> pynum) option \<Rightarrow> py_error + datetime option" where
  "datetime_from_json js0 =
     (case js0 of
        None \<Rightarrow> Inr None
      | Some js \<Rightarrow>
          (case (js ''year'', js ''month'', js ''date'', js ''hours'', js ''minutes'',
                 js ''seconds'', js ''milliseconds'') of
             (Some y, Some mo, Some d, Some h, Some mi, Some s, Some ms) \<Rightarrow>
               map_sum id Some (dt_datetime y (py_add mo 1) d h mi s (py_mul ms 1000))
           | _ \<Rightarrow> Inl KeyError))"

definition example_datetime :: datetime where
  "example_datetime =
     \<lparr>year = 2015, month = 5, day = 12, hour = 10, minute = 30, second = 15,
      microsecond = 123456, tzinfo = None\<rparr>"

section \<open>Python lists and dictionaries\<close>

text \<open>
  A list is a HOL list. \<open>xs[i]\<close> counts a negative index from the end and raises
  \<open>IndexError\<close> outside the list; \<open>xs.index(x)\<close> is the position of the first element
  equal to \<open>x\<close> and raises \<open>ValueError\<close> when there is none. A method is modelled by
  the list it leaves and what it returns or raises.
\<close>

definition list_getitem :: "'a list \<Rightarrow> int \<Rightarrow> py_error + 'a" where
  "list_getitem xs i =
     (if 0 \<le> i \<and> i < int (length xs) then Inr (xs ! nat i)
      else if i < 0 \<and> 0 \<le> i + int (length xs) then Inr (xs ! nat (i + int (length xs)))
      else Inl IndexError)"

definition list_index :: "'a list \<Rightarrow> 'a \<Rightarrow> py_error + int" where
  "list_index xs x =
     (if x \<in> set xs then Inr (int (length (takeWhile (\<lambda>y. y \<noteq> x) xs))) else Inl ValueError)"

definition list_append :: "'a list \<Rightarrow> 'a \<Rightarrow> 'a list \<times> (py_error + unit)" where
  "list_append xs x = (xs @ [x], Inr ())"

definition list_extend :: "'a list \<Rightarrow> 'a list \<Rightarrow> 'a list \<times> (py_error + unit)" where
  "list_extend xs ys = (xs @ ys, Inr ())"

definition list_remove :: "'a list \<Rightarrow> 'a \<Rightarrow> 'a list \<times> (py_error + unit)" where
  "list_remove xs x = (if x \<in> set xs then (remove1 x xs, Inr ()) else (xs, Inl ValueError))"

definition list_reverse :: "'a list \<Rightarrow> unit \<Rightarrow> 'a list \<times> (py_error + unit)" where
  "list_reverse xs u = (rev xs, Inr ())"

definition list_sort :: "('a::linorder) list \<Rightarrow> unit \<Rightarrow> 'a list \<times> (py_error + unit)" where
  "list_sort xs u = (sort xs, Inr ())"

text \<open>
  A dictionary is the list of its items in insertion order, the keys distinct. An
  assignment to a key that is present replaces the value where it stands; a new key goes
  to the end. \<open>d.update(other)\<close> assigns the items of \<open>other\<close> in their order.
\<close>

type_synonym ('k, 'v) dict = "('k \<times> 'v) list"

definition dict_getitem :: "('k, 'v) dict \<Rightarrow> 'k \<Rightarrow> py_error + 'v" where
  "dict_getitem d k = (case map_of d k of None \<Rightarrow> Inl KeyError | Some v \<Rightarrow> Inr v)"

fun dict_setitem :: "('k, 'v) dict \<Rightarrow> 'k \<Rightarrow> 'v \<Rightarrow> ('k, 'v) dict" where
  "dict_setitem [] k v = [(k, v)]"
| "dict_setitem ((k', v') # d) k v =
     (if k' = k then (k', v) # d else (k', v') # dict_setitem d k v)"

definition dict_update :: "('k, 'v) dict \<Rightarrow> ('k, 'v) dict \<Rightarrow> ('k, 'v) dict" where
  "dict_update d other = fold (\<lambda>item acc. dict_setitem acc (fst item) (snd item)) other d"




section \<open>Eventful containers\<close>

text \<open>
  A change record is a \<open>Bunch\<close> with the fields \<open>key\<close>, \<open>old\<close> and \<open>new\<close>, with \<open>key\<close>
  and \<open>old\<close>, or with \<open>old\<close> and \<open>new\<close>. The \<open>old\<close> of the first kind is a value of the
  container or the sentinel \<open>Undefined\<close>.
\<close>

datatype 'v slot = Undefined | Value 'v

datatype ('k, 'v) bunch =
    Bunch_key_old_new 'k "'v slot" 'v
  | Bunch_key_old 'k 'v
  | Bunch_old_new "'v list" "'v list"


subsection \<open>The hooks of \<open>EventfulElements\<close>\<close>

text \<open>
  The hooks are shared by the mapping and the sequence, so \<open>value[key]\<close> is the parameter
  \<open>getitem\<close>. The argument \<open>key\<close> is \<open>call.args[0]\<close>. \<open>_before_setitem\<close> turns a
  \<open>KeyError\<close> or an \<open>IndexError\<close> into \<open>Undefined\<close>; \<open>_before_delitem\<close> catches the
  \<open>KeyError\<close> only and then returns nothing. \<open>new != old\<close> is the negation of equality
  on the values.
\<close>

definition before_setitem ::
  "('c \<Rightarrow> 'k \<Rightarrow> py_error + 'v) \<Rightarrow> 'c \<Rightarrow> 'k \<Rightarrow> py_error + ('k \<times> 'v slot)" where
  "before_setitem getitem value key =
     (case getitem value key of
        Inr old \<Rightarrow> Inr (key, Value old)
      | Inl KeyError \<Rightarrow> Inr (key, Undefined)
      | Inl IndexError \<Rightarrow> Inr (key, Undefined)
      | Inl e \<Rightarrow> Inl e)"

definition after_setitem ::
  "('c \<Rightarrow> 'k \<Rightarrow> py_error + 'v) \<Rightarrow> 'c \<Rightarrow> 'k \<times> 'v slot \<Rightarrow> py_error + ('k, 'v) bunch option" where
  "after_setitem getitem value answer_before =
     (case answer_before of (key, old) \<Rightarrow>
        (case getitem value key of
           Inl e \<Rightarrow> Inl e
         | Inr new \<Rightarrow>
             if Value new \<noteq> old then Inr (Some (Bunch_key_old_new key old new))
             else Inr None))"

definition before_delitem ::
  "('c \<Rightarrow> 'k \<Rightarrow> py_error + 'v) \<Rightarrow> 'c \<Rightarrow> 'k \<Rightarrow> py_error + ('k, 'v) bunch option" where
  "before_delitem getitem value key =
     (case getitem value key of
        Inl KeyError \<Rightarrow> Inr None
      | Inl e \<Rightarrow> Inl e
      | Inr old \<Rightarrow> Inr (Some (Bunch_key_old key old)))"

subsection \<open>The wrapping protocol\<close>

text \<open>
  Modelled from the spec: the class \<open>Eventful\<close> of the module \<open>eventful\<close>, with its
  context managers \<open>abstracted\<close> and \<open>abstracted_once\<close>, is not among the sources. The spec
  (4.3) gives the instrumented call: the before-hook runs on the container and the
  arguments and its result is kept as the state; the original method runs; the after-hook
  runs on the container and the state; the records it yields are emitted as notifications;
  the method's result is returned. When the before-hook or the method raises, the
  after-hook does not run, nothing is emitted, and the container is as the method left it.

  \<open>instrumented\<close> returns the container after the call, the notifications emitted and the
  result or the exception. A before-hook returns the call as it leaves it (it may change an
  argument in place) together with the state.
\<close>

definition instrumented ::
  "('c \<Rightarrow> 'a \<Rightarrow> py_error + 'a \<times> 's) \<Rightarrow> ('c \<Rightarrow> 'a \<Rightarrow> 'c \<times> (py_error + 'r))
     \<Rightarrow> ('c \<Rightarrow> 's \<Rightarrow> py_error + 'e list) \<Rightarrow> 'c \<Rightarrow> 'a \<Rightarrow> 'c \<times> 'e list \<times> (py_error + 'r)" where
  "instrumented before_hook method after_hook value call =
     (case before_hook value call of
        Inl e \<Rightarrow> (value, [], Inl e)
      | Inr (call', state) \<Rightarrow>
          (case method value call' of
             (value', Inl e) \<Rightarrow> (value', [], Inl e)
           | (value', Inr result) \<Rightarrow>
               (case after_hook value' state of
                  Inl e \<Rightarrow> (value', [], Inl e)
                | Inr events \<Rightarrow> (value', events, Inr result))))"

text \<open>A before-hook that leaves the call alone.\<close>

definition keep :: "('c \<Rightarrow> 'a \<Rightarrow> py_error + 's) \<Rightarrow> 'c \<Rightarrow> 'a \<Rightarrow> py_error + 'a \<times> 's" where
  "keep before_hook value call = map_sum id (Pair call) (before_hook value call)"

text \<open>
  Modelled from the spec: the two bracketing modes (4.3, 4.4). \<open>abstracted\<close> yields a
  callback that runs the before-hook of the primitive operation on each of its calls, in
  order, and keeps the states; as the after-hook it runs the after-hook of the primitive on
  each state, in the same order, and yields the records produced, one per sub-operation that
  changed something. \<open>abstracted_once\<close> does the same for exactly one call. \<open>traverse\<close>
  stops at the first exception. An operation wired to a primitive directly has one state
  and emits the record of its after-hook, if there is one (\<open>single\<close>). The primitive
  \<open>delitem\<close> has no after-hook of its own in the sources: the record its before-hook
  captured is what is emitted (\<open>after_delitem\<close>).
\<close>

fun traverse :: "('a \<Rightarrow> py_error + 'b) \<Rightarrow> 'a list \<Rightarrow> py_error + 'b list" where
  "traverse f [] = Inr []"
| "traverse f (x # xs) =
     (case f x of
        Inl e \<Rightarrow> Inl e
      | Inr y \<Rightarrow> (case traverse f xs of Inl e \<Rightarrow> Inl e | Inr ys \<Rightarrow> Inr (y # ys)))"

definition abstracted :: "('c \<Rightarrow> 'k \<Rightarrow> py_error + 's) \<Rightarrow> 'c \<Rightarrow> 'k list \<Rightarrow> py_error + 's list" where
  "abstracted before_hook value keys = traverse (before_hook value) keys"

definition abstracted_once :: "('c \<Rightarrow> 'k \<Rightarrow> py_error + 's) \<Rightarrow> 'c \<Rightarrow> 'k \<Rightarrow> py_error + 's list" where
  "abstracted_once before_hook value key = traverse (before_hook value) [key]"

definition abstracted_after ::
  "('c \<Rightarrow> 's \<Rightarrow> py_error + 'e option) \<Rightarrow> 'c \<Rightarrow> 's list \<Rightarrow> py_error + 'e list" where
  "abstracted_after after_hook value states =
     map_sum id (List.map_filter id) (traverse (after_hook value) states)"


definition after_delitem :: "'c \<Rightarrow> 'e option \<Rightarrow> py_error + 'e option" where
  "after_delitem value captured = Inr captured"

subsection \<open>\<open>EventfulDict\<close>\<close>

text \<open>
  \<open>_before_update\<close>: with a positional argument, \<open>new\<close> is that argument after
  \<open>new.update(call.kwargs)\<close>, which changes the caller's object; without one, \<open>new\<close> is the
  keyword arguments. The hook then brackets one \<open>setitem\<close> for each item of \<open>new\<close>. It
  returns the call with the positional argument as it now is. \<open>_before_clear\<close> brackets one
  \<open>delitem\<close> for each key of the container.
\<close>

definition before_update ::
  "('k, 'v) dict \<Rightarrow> ('k, 'v) dict option \<times> ('k, 'v) dict
     \<Rightarrow> py_error + (('k, 'v) dict option \<times> ('k, 'v) dict) \<times> ('k \<times> 'v slot) list" where
  "before_update value call =
     (case call of (positional, kwargs) \<Rightarrow>
        (let new = (case positional of Some other \<Rightarrow> dict_update other kwargs | None \<Rightarrow> kwargs);
             call' = (case positional of Some other \<Rightarrow> (Some new, kwargs) | None \<Rightarrow> (None, kwargs))
         in map_sum id (Pair call')
              (abstracted (before_setitem dict_getitem) value (map fst new))))"



subsection \<open>\<open>EventfulList\<close>\<close>

text \<open>
  The hooks of the sequence. \<open>_before_append\<close> brackets one \<open>setitem\<close> at \<open>len(value)\<close>.
  \<open>_before_extend\<close> brackets \<open>setitem(i, v)\<close> for \<open>i, v in enumerate(call.args[0])\<close>.
  \<open>_before_remove\<close> brackets one \<open>delitem\<close> at \<open>value.index(call.args[0])\<close>.
  \<open>rearrangement\<close> copies the list (\<open>old = new[:]\<close>) and returns a closure as the
  after-hook; the closure builds \<open>Bunch(old=old, new=new)\<close>, where \<open>new\<close> is the container
  itself, read when the record is built.
\<close>

definition before_append :: "'a list \<Rightarrow> 'a \<Rightarrow> py_error + (int \<times> 'a slot) list" where
  "before_append value x =
     abstracted_once (before_setitem list_getitem) value (int (length value))"

definition before_extend :: "'a list \<Rightarrow> 'a list \<Rightarrow> py_error + (int \<times> 'a slot) list" where
  "before_extend value ext =
     abstracted (before_setitem list_getitem) value
       (map (\<lambda>(i, v). int i) (enumerate 0 ext))"

definition before_remove :: "'a list \<Rightarrow> 'a \<Rightarrow> py_error + (int, 'a) bunch option list" where
  "before_remove value x =
     (case list_index value x of
        Inl e \<Rightarrow> Inl e
      | Inr i \<Rightarrow> abstracted_once (before_delitem list_getitem) value i)"

definition rearrangement :: "'a list \<Rightarrow> unit \<Rightarrow> py_error + 'a list" where
  "rearrangement new call = Inr new"

definition after_rearangement :: "'a list \<Rightarrow> 'a list \<Rightarrow> py_error + (int, 'a) bunch list" where
  "after_rearangement value old = Inr [Bunch_old_new old value]"

definition EventfulList_append ::
  "'a list \<Rightarrow> 'a \<Rightarrow> 'a list \<times> (int, 'a) bunch list \<times> (py_error + unit)" where
  "EventfulList_append =
     instrumented (keep before_append) list_append (abstracted_after (after_setitem list_getitem))"

definition EventfulList_extend ::
  "'a list \<Rightarrow> 'a list \<Rightarrow> 'a list \<times> (int, 'a) bunch list \<times> (py_error + unit)" where
  "EventfulList_extend =
     instrumented (keep before_extend) list_extend (abstracted_after (after_setitem list_getitem))"

definition EventfulList_remove ::
  "'a list \<Rightarrow> 'a \<Rightarrow> 'a list \<times> (int, 'a) bunch list \<times> (py_error + unit)" where
  "EventfulList_remove =
     instrumented (keep before_remove) list_remove (abstracted_after after_delitem)"

definition EventfulList_reverse ::
  "'a list \<Rightarrow> unit \<Rightarrow> 'a list \<times> (int, 'a) bunch list \<times> (py_error + unit)" where
  "EventfulList_reverse = instrumented (keep rearrangement) list_reverse after_rearangement"

definition EventfulList_sort ::
  "('a::linorder) list \<Rightarrow> unit \<Rightarrow> 'a list \<times> (int, 'a) bunch list \<times> (py_error + unit)" where
  "EventfulList_sort = instrumented (keep rearrangement) list_sort after_rearangement"

section \<open>InstanceDict\<close>

text \<open>
  A value handed to the trait is a \<open>dict\<close> with string keys or some other object. The
  target class \<open>self.klass\<close> is given by its constructor on keyword arguments, which may
  raise, and by its instance test. \<open>Instance.validate\<close> of traitlets returns an instance
  of the class as it is and calls \<open>self.error\<close> on anything else.
\<close>

datatype 'o pyvalue = PyDict "(string \<times> 'o pyvalue) list" | PyObject 'o

record 'o klass =
  construct :: "(string \<times> 'o pyvalue) list \<Rightarrow> py_error + 'o pyvalue"
  isinstance :: "'o pyvalue \<Rightarrow> bool"

definition Instance_validate ::
  "'o klass \<Rightarrow> 'o pyvalue \<Rightarrow> (py_error + 'o pyvalue trait_error) + 'o pyvalue" where
  "Instance_validate cls v = (if isinstance cls v then Inr v else Inl (Inr (TraitError v)))"

definition InstanceDict_validate ::
  "'o klass \<Rightarrow> 'o pyvalue \<Rightarrow> (py_error + 'o pyvalue trait_error) + 'o pyvalue" where
  "InstanceDict_validate cls v =
     (case v of
        PyDict kwargs \<Rightarrow>
          (case construct cls kwargs of
             Inl e \<Rightarrow> Inl (Inl e)
           | Inr inst \<Rightarrow> Instance_validate cls inst)
      | _ \<Rightarrow> Instance_validate cls v)"

text \<open>
  An example target class: \<open>Target(a=n)\<close> takes exactly the keyword \<open>a\<close> with a number.
  The objects of the example are numbers, \<open>Target\<close> instances and instances of another
  class.
\<close>

datatype example_object = Number int | Target int | Other

definition Target_klass :: "example_object klass" where
  "Target_klass =
     \<lparr>construct = (\<lambda>kwargs.
        case kwargs of
          [(name, PyObject (Number n))] \<Rightarrow>
            if name = ''a'' then Inr (PyObject (Target n)) else Inl TypeError
        | _ \<Rightarrow> Inl TypeError),
      isinstance = (\<lambda>v. case v of PyObject (Target n) \<Rightarrow> True | _ \<Rightarrow> False)\<rparr>"

subsection \<open>What the notifications are compared with\<close>

text \<open>
  The \<open>old\<close> field that a \<open>setitem\<close> record of a dictionary must carry: the value at
  the key before the call, or \<open>Undefined\<close>. \<open>setitem_records d new\<close> lists one such
  record for each item of \<open>new\<close> that is not already an item of \<open>d\<close>. A call is
  well formed when the dictionaries it passes have distinct keys, as every Python
  dictionary has.
\<close>

definition old_value :: "('k, 'v) dict \<Rightarrow> 'k \<Rightarrow> 'v slot" where
  "old_value d k = (case map_of d k of None \<Rightarrow> Undefined | Some v \<Rightarrow> Value v)"



section \<open>Properties of the validators\<close>

lemma hex_class_eq: "set spec_hex_class = set hex_class"
  unfolding spec_hex_class_def hex_class_def by code_simp

lemma color_re_agree:
  "(rmatch False color_re (0, s, Map.empty) = []) =
   (rmatch False spec_color_re (0, s, Map.empty) = [])"
  by (auto simp add: color_re_def spec_color_re_def numeral_3_eq_3 step_char_def
      char_in_def hex_class_eq set_group_def split: list.splits)

lemma color_re_spec: "(re_match False color_re s = None) = (re_match False spec_color_re s = None)"
  using color_re_agree [of s] by (auto simp add: re_match_def split: list.splits)

text \<open>
  C2. For every string \<open>s\<close>, \<open>Color.validate(s)\<close> returns \<open>s\<close> itself when \<open>s.lower()\<close> is
  one of the colour names or \<open>s\<close> matches the anchored pattern
  \<^verbatim>\<open>^#[0-9a-fA-F]{3}([0-9a-fA-F]{3})?$\<close>, and in every other case raises the validation
  error that carries \<open>s\<close>; so it succeeds if and only if one of the two holds.
\<close>

theorem Color_validate_spec:
  "Color_validate s =
     (if lower s \<in> set color_names \<or> re_match False spec_color_re s \<noteq> None
      then Inr s else Inl (TraitError s))"
  by (simp add: Color_validate_def color_re_spec)

theorem Color_validate_spec_witness:
  "re_match False spec_color_re ''#A80'' \<noteq> None
   \<and> Color_validate ''#A80'' = Inr ''#A80''
   \<and> lower ''Blue'' \<in> set color_names
   \<and> Color_validate ''Blue'' = Inr ''Blue''
   \<and> \<not> (lower ''#A8'' \<in> set color_names \<or> re_match False spec_color_re ''#A8'' \<noteq> None)
   \<and> Color_validate ''#A8'' = Inl (TraitError ''#A8'')"
proof -
  have a: "re_match False spec_color_re ''#A80'' \<noteq> None"
    by code_simp
  have b: "lower ''Blue'' \<in> set color_names"
    by code_simp
  have c: "\<not> (lower ''#A8'' \<in> set color_names \<or> re_match False spec_color_re ''#A8'' \<noteq> None)"
    by code_simp
  show ?thesis
    using a b c Color_validate_spec [of "''#A80''"] Color_validate_spec [of "''Blue''"]
      Color_validate_spec [of "''#A8''"]
    by simp
qed



section \<open>Properties of the serialization\<close>

text \<open>
  C3, as the claim states it, fails. The value 2015-05-12 10:30:15.123456 is valid; under
  Python 3 the wire form holds the float \<open>123.456\<close> and the constructor raises
  \<open>TypeError\<close>, under Python 2 the microseconds come back as 123000. In neither case is
  the value returned.
\<close>

theorem datetime_roundtrip_counterexample:
  "valid_datetime example_datetime
   \<and> datetime_from_json (datetime_to_json Python3 (Some example_datetime)) = Inl TypeError
   \<and> datetime_from_json (datetime_to_json Python2 (Some example_datetime)) =
       Inr (Some (example_datetime\<lparr>microsecond := 123000\<rparr>))
   \<and> datetime_from_json (datetime_to_json Python3 (Some example_datetime)) \<noteq> Inr (Some example_datetime)
   \<and> datetime_from_json (datetime_to_json Python2 (Some example_datetime)) \<noteq> Inr (Some example_datetime)"
  by (simp add: example_datetime_def valid_datetime_def days_in_month_def is_leap_def
      datetime_from_json_def datetime_to_json_def py_div_def dt_datetime_def)

text \<open>
  C3, amended. Where \<open>/\<close> on ints is integer division (Python 2), every valid naive
  value whose microseconds are a whole number of milliseconds is returned by
  \<open>from_json (to_json d)\<close>; and under either division \<open>to_json\<close> maps \<open>None\<close> to \<open>None\<close>
  and \<open>from_json\<close> maps \<open>None\<close> to \<open>None\<close>.
\<close>

theorem datetime_roundtrip_milliseconds:
  assumes valid: "valid_datetime d"
    and naive: "tzinfo d = None"
    and whole: "microsecond d mod 1000 = 0"
  shows "datetime_from_json (datetime_to_json Python2 (Some d)) = Inr (Some d)
    \<and> datetime_to_json ver None = None
    \<and> datetime_from_json None = Inr None"
proof -
  have us: "microsecond d div 1000 * 1000 = microsecond d"
    using whole by (simp add: mod_eq_0_iff_dvd)
  have same: "\<lparr>year = year d, month = month d, day = day d, hour = hour d, minute = minute d,
      second = second d, microsecond = microsecond d, tzinfo = None\<rparr> = d"
    using naive by simp
  have "datetime_from_json (datetime_to_json Python2 (Some d)) = Inr (Some d)"
    using valid
    by (simp add: datetime_from_json_def datetime_to_json_def py_div_def dt_datetime_def us same)
  then show ?thesis
    by (simp add: datetime_from_json_def datetime_to_json_def)
qed

theorem datetime_roundtrip_milliseconds_witness:
  "valid_datetime (example_datetime\<lparr>microsecond := 123000\<rparr>)
   \<and> tzinfo (example_datetime\<lparr>microsecond := 123000\<rparr>) = None
   \<and> microsecond (example_datetime\<lparr>microsecond := 123000\<rparr>) mod 1000 = 0
   \<and> datetime_from_json (datetime_to_json Python2 (Some (example_datetime\<lparr>microsecond := 123000\<rparr>)))
       = Inr (Some (example_datetime\<lparr>microsecond := 123000\<rparr>))"
proof -
  have v: "valid_datetime (example_datetime\<lparr>microsecond := 123000\<rparr>)"
    by (simp add: example_datetime_def valid_datetime_def days_in_month_def)
  have n: "tzinfo (example_datetime\<lparr>microsecond := 123000\<rparr>) = None"
    by (simp add: example_datetime_def)
  have w: "microsecond (example_datetime\<lparr>microsecond := 123000\<rparr>) mod 1000 = 0"
    by simp
  show ?thesis
    using v n w datetime_roundtrip_milliseconds [OF v n w] by blast
qed

section \<open>Properties of the eventful mapping\<close>

subsection \<open>Dictionaries\<close>

lemma traverse_total:
  "(\<And>x. x \<in> set xs \<Longrightarrow> f x = Inr (g x)) \<Longrightarrow> traverse f xs = Inr (map g xs)"
  by (induction xs) simp_all

lemma traverse_map_total:
  "(\<And>x. x \<in> set xs \<Longrightarrow> f (h x) = Inr (g x)) \<Longrightarrow> traverse f (map h xs) = Inr (map g xs)"
  by (induction xs) simp_all

lemma map_filter_if:
  "List.map_filter id (map (\<lambda>x. if P x then Some (f x) else None) xs) = map f (filter P xs)"
  by (induction xs) (simp_all add: List.map_filter_simps)


lemma map_of_dict_setitem: "map_of (dict_setitem d k v) = (map_of d)(k \<mapsto> v)"
  by (induction d) (auto simp add: fun_eq_iff)



lemma dict_setitem_same: "map_of d k = Some v \<Longrightarrow> dict_setitem d k v = d"
  by (induction d) (auto split: if_splits)



lemma map_of_dict_update:
  "distinct (map fst other) \<Longrightarrow> map_of (dict_update d other) = map_of d ++ map_of other"
  unfolding dict_update_def
proof (induction other arbitrary: d)
  case Nil
  then show ?case by simp
next
  case (Cons item other)
  obtain k v where item: "item = (k, v)" by (cases item)
  from Cons.prems item have notin: "k \<notin> fst ` set other" and dist: "distinct (map fst other)"
    by auto
  have none: "map_of other k = None"
    using notin by (simp add: map_of_eq_None_iff)
  have "map_of (fold (\<lambda>item acc. dict_setitem acc (fst item) (snd item)) (item # other) d)
      = map_of (dict_setitem d k v) ++ map_of other"
    using Cons.IH [OF dist] item by simp
  also have "\<dots> = map_of d ++ map_of (item # other)"
  proof (rule ext)
    fix x
    show "(map_of (dict_setitem d k v) ++ map_of other) x = (map_of d ++ map_of (item # other)) x"
      using none
      by (cases "x = k") (simp_all add: map_of_dict_setitem map_add_def item split: option.splits)
  qed
  finally show ?case .
qed

lemma dict_update_same:
  "(\<And>k v. (k, v) \<in> set kw \<Longrightarrow> map_of d k = Some v) \<Longrightarrow> dict_update d kw = d"
  unfolding dict_update_def
  by (induction kw) (simp_all add: dict_setitem_same)

lemma dict_update_changes:
  assumes kwargs: "distinct (map fst kwargs)"
  shows "(dict_update other kwargs \<noteq> other) =
     (\<exists>item \<in> set kwargs. map_of other (fst item) \<noteq> Some (snd item))"
proof
  assume neq: "dict_update other kwargs \<noteq> other"
  show "\<exists>item \<in> set kwargs. map_of other (fst item) \<noteq> Some (snd item)"
  proof (rule ccontr)
    assume "\<not> (\<exists>item \<in> set kwargs. map_of other (fst item) \<noteq> Some (snd item))"
    then have "\<And>k v. (k, v) \<in> set kwargs \<Longrightarrow> map_of other k = Some v"
      by force
    then have "dict_update other kwargs = other"
      by (rule dict_update_same)
    with neq show False by simp
  qed
next
  assume "\<exists>item \<in> set kwargs. map_of other (fst item) \<noteq> Some (snd item)"
  then obtain k v where kv: "(k, v) \<in> set kwargs" "map_of other k \<noteq> Some v"
    by force
  have "map_of (dict_update other kwargs) k = Some v"
    using kv(1) kwargs by (simp add: map_of_dict_update [OF kwargs] map_add_def)
  with kv(2) show "dict_update other kwargs \<noteq> other"
    by auto
qed


subsection \<open>The hooks on a dictionary\<close>

lemma before_setitem_dict: "before_setitem dict_getitem d k = Inr (k, old_value d k)"
  by (simp add: before_setitem_def dict_getitem_def old_value_def split: option.splits)



lemma abstracted_before_setitem_dict:
  "abstracted (before_setitem dict_getitem) d ks = Inr (map (\<lambda>k. (k, old_value d k)) ks)"
  unfolding abstracted_def by (rule traverse_total) (rule before_setitem_dict)




subsection \<open>What each call emits\<close>

















text \<open>
  C10, as the claim states it, fails: with \<open>update({'a': 1}, a=1)\<close> the positional
  argument holds after the hook what it held before.
\<close>

theorem before_update_positional_counterexample:
  "before_update ([] :: (string \<times> int) list) (Some [(''a'', 1)], [(''a'', 1)]) =
     Inr ((Some [(''a'', 1)], [(''a'', 1)]), [(''a'', Undefined)])"
  by (simp add: before_update_def abstracted_def before_setitem_def dict_getitem_def Let_def
      dict_update_def)

text \<open>
  C10, amended. With a positional argument, \<open>_before_update\<close> leaves in the caller's
  dictionary the merge of the keyword arguments into it, and brackets the \<open>setitem\<close>s
  over that merge: a key of the keyword arguments takes their value, every other key keeps
  its own. The dictionary differs from what the caller passed exactly when some keyword
  argument is not already one of its items.
\<close>

theorem before_update_merges_positional:
  "before_update d (Some other, kwargs) =
     Inr ((Some (dict_update other kwargs), kwargs),
          map (\<lambda>k. (k, old_value d k)) (map fst (dict_update other kwargs)))
   \<and> (distinct (map fst kwargs) \<longrightarrow>
        (dict_update other kwargs \<noteq> other) =
          (\<exists>item \<in> set kwargs. map_of other (fst item) \<noteq> Some (snd item)))
   \<and> (distinct (map fst kwargs) \<longrightarrow>
        (\<forall>k. map_of (dict_update other kwargs) k =
            (case map_of kwargs k of Some v \<Rightarrow> Some v | None \<Rightarrow> map_of other k)))"
proof -
  have hook: "before_update d (Some other, kwargs) =
     Inr ((Some (dict_update other kwargs), kwargs),
          map (\<lambda>k. (k, old_value d k)) (map fst (dict_update other kwargs)))"
    by (simp add: before_update_def abstracted_before_setitem_dict Let_def del: map_map)
  have merge: "distinct (map fst kwargs) \<longrightarrow>
        (\<forall>k. map_of (dict_update other kwargs) k =
            (case map_of kwargs k of Some v \<Rightarrow> Some v | None \<Rightarrow> map_of other k))"
    by (simp add: map_of_dict_update map_add_def)
  from hook merge dict_update_changes [of kwargs other] show ?thesis
    by blast
qed

theorem before_update_merges_positional_witness:
  "distinct (map fst [(''b'', 2 :: int)])
   \<and> (\<exists>item \<in> set [(''b'', 2 :: int)]. map_of [(''a'', 1)] (fst item) \<noteq> Some (snd item))
   \<and> before_update [] (Some [(''a'', 1 :: int)], [(''b'', 2)]) =
       Inr ((Some [(''a'', 1), (''b'', 2)], [(''b'', 2)]), [(''a'', Undefined), (''b'', Undefined)])
   \<and> dict_update [(''a'', 1 :: int)] [(''b'', 2)] \<noteq> [(''a'', 1)]"
proof -
  have dk: "distinct (map fst [(''b'', 2 :: int)])"
    by simp
  have ex: "\<exists>item \<in> set [(''b'', 2 :: int)]. map_of [(''a'', 1)] (fst item) \<noteq> Some (snd item)"
    by simp
  from before_update_merges_positional [of "[]" "[(''a'', 1 :: int)]" "[(''b'', 2)]"] dk ex
  have "before_update [] (Some [(''a'', 1 :: int)], [(''b'', 2)]) =
       Inr ((Some (dict_update [(''a'', 1)] [(''b'', 2)]), [(''b'', 2)]),
          map (\<lambda>k. (k, old_value [] k)) (map fst (dict_update [(''a'', 1 :: int)] [(''b'', 2)])))
     \<and> dict_update [(''a'', 1 :: int)] [(''b'', 2)] \<noteq> [(''a'', 1)]"
    by blast
  then show ?thesis
    using dk ex by (simp add: dict_update_def old_value_def)
qed

section \<open>Properties of the eventful sequence\<close>

lemma before_extend_states:
  "before_extend value ext =
     Inr (map (\<lambda>i. (int i, if i < length value then Value (value ! i) else Undefined))
            [0..<length ext])"
proof -
  have keys: "map (\<lambda>(i, v). int i) (enumerate 0 ext) = map int [0..<length ext]"
  proof -
    have "map (\<lambda>(i, v). int i) (enumerate 0 ext) = map (int \<circ> fst) (enumerate 0 ext)"
      by (simp add: case_prod_unfold comp_def)
    also have "\<dots> = map int (map fst (enumerate 0 ext))"
      by (simp only: map_map)
    also have "\<dots> = map int [0..<length ext]"
      by (simp only: map_fst_enumerate add_0)
    finally show ?thesis .
  qed
  have "traverse (before_setitem list_getitem value) (map int [0..<length ext]) =
     Inr (map (\<lambda>k. (k, if nat k < length value then Value (value ! nat k) else Undefined))
            (map int [0..<length ext]))"
    by (rule traverse_total) (auto simp add: before_setitem_def list_getitem_def)
  then show ?thesis
    by (simp add: before_extend_def abstracted_def keys comp_def)
qed

lemma filter_upt_from: "filter (\<lambda>i. m \<le> i) [0..<n] = [m..<n]"
  by (induction n) (auto simp add: upt_rec [of m])

lemma append_call:
  "EventfulList_append value x =
     (value @ [x], [Bunch_key_old_new (int (length value)) Undefined x], Inr ())"
  by (simp add: EventfulList_append_def instrumented_def keep_def before_append_def
      abstracted_once_def abstracted_after_def list_append_def before_setitem_def
      after_setitem_def list_getitem_def List.map_filter_simps)

lemma extend_call:
  "EventfulList_extend value ext =
     (value @ ext,
      map (\<lambda>i. Bunch_key_old_new (int i) Undefined (ext ! (i - length value)))
        [length value..<length ext],
      Inr ())"
proof -
  let ?h = "\<lambda>i. (int i, if i < length value then Value (value ! i) else Undefined)"
  let ?g = "\<lambda>i. if length value \<le> i
      then Some (Bunch_key_old_new (int i) Undefined (ext ! (i - length value))) else None"
  have "traverse (after_setitem list_getitem (value @ ext)) (map ?h [0..<length ext])
      = Inr (map ?g [0..<length ext])"
    by (rule traverse_map_total) (auto simp add: after_setitem_def list_getitem_def nth_append)
  then have after: "abstracted_after (after_setitem list_getitem) (value @ ext)
      (map ?h [0..<length ext])
        = Inr (map (\<lambda>i. Bunch_key_old_new (int i) Undefined (ext ! (i - length value)))
                 [length value..<length ext])"
    using map_filter_if [of "\<lambda>i. length value \<le> i"
        "\<lambda>i. Bunch_key_old_new (int i) Undefined (ext ! (i - length value))" "[0..<length ext]"]
    by (simp add: abstracted_after_def comp_def filter_upt_from)
  show ?thesis
    by (simp add: EventfulList_extend_def instrumented_def keep_def before_extend_states
        list_extend_def after del: upt.simps)
qed

text \<open>
  C1. The code at the list \<open>[10]\<close> and the call \<open>extend([20, 30])\<close>. \<open>_before_extend\<close>
  brackets \<open>setitem\<close> at the indices 0 and 1 that \<open>enumerate\<close> counts (lemma
  \<open>before_extend_states\<close>), where \<open>_before_append\<close> uses \<open>len(value)\<close> (lemma
  \<open>append_call\<close>). The one record emitted is for index 1; the element 30, at index 2,
  is not reported. The claim asks for two records, with the keys 1 and 2.
\<close>

theorem extend_on_singleton:
  "EventfulList_extend [10 :: int] [20, 30] = ([10, 20, 30], [Bunch_key_old_new 1 Undefined 20], Inr ())"
  by (simp add: EventfulList_extend_def instrumented_def keep_def before_extend_def abstracted_def
      abstracted_after_def list_extend_def before_setitem_def after_setitem_def list_getitem_def
      List.map_filter_simps)

text \<open>
  C6. \<open>reverse\<close> and \<open>sort\<close> on an eventful sequence emit exactly one record, whose
  \<open>old\<close> is the contents before the call and whose \<open>new\<close> is the contents after it,
  whether or not the two differ: sorting a one-element list and reversing a palindrome
  emit a record with \<open>old\<close> equal to \<open>new\<close>.
\<close>

theorem rearrangement_always_emits:
  "EventfulList_reverse value () = (rev value, [Bunch_old_new value (rev value)], Inr ())
   \<and> EventfulList_sort value () = (sort value, [Bunch_old_new value (sort value)], Inr ())
   \<and> EventfulList_sort [x] () = ([x], [Bunch_old_new [x] [x]], Inr ())
   \<and> EventfulList_reverse [x, y, x] () = ([x, y, x], [Bunch_old_new [x, y, x] [x, y, x]], Inr ())
   \<and> length (fst (snd (EventfulList_reverse value ()))) = 1
   \<and> length (fst (snd (EventfulList_sort value ()))) = 1"
  by (simp add: EventfulList_reverse_def EventfulList_sort_def instrumented_def keep_def
      rearrangement_def list_reverse_def list_sort_def after_rearangement_def)

lemma first_index:
  assumes "x \<in> set xs"
  shows "length (takeWhile (\<lambda>y. y \<noteq> x) xs) < length xs"
    and "xs ! length (takeWhile (\<lambda>y. y \<noteq> x) xs) = x"
    and "\<forall>j < length (takeWhile (\<lambda>y. y \<noteq> x) xs). xs ! j \<noteq> x"
proof -
  show lt: "length (takeWhile (\<lambda>y. y \<noteq> x) xs) < length xs"
    using assms by (induction xs) auto
  show "xs ! length (takeWhile (\<lambda>y. y \<noteq> x) xs) = x"
    using nth_length_takeWhile [OF lt] by simp
  show "\<forall>j < length (takeWhile (\<lambda>y. y \<noteq> x) xs). xs ! j \<noteq> x"
    using nth_mem set_takeWhileD takeWhile_nth by (metis (mono_tags, lifting))
qed

lemma remove1_first_index:
  "x \<in> set xs \<Longrightarrow>
   remove1 x xs = take (length (takeWhile (\<lambda>y. y \<noteq> x) xs)) xs
      @ drop (Suc (length (takeWhile (\<lambda>y. y \<noteq> x) xs))) xs"
  by (induction xs) auto

text \<open>
  C7. On an eventful sequence, \<open>remove(x)\<close> with \<open>x\<close> not in the list raises
  \<open>ValueError\<close> from the before-hook, emits nothing and leaves the list as it is. With
  \<open>x\<close> in the list the hook brackets one \<open>delitem\<close> at the index of the first element
  equal to \<open>x\<close>; the call removes that element and emits the record with that index and
  the element.
\<close>

theorem EventfulList_remove_spec:
  "(x \<notin> set value \<longrightarrow>
      before_remove value x = Inl ValueError
      \<and> EventfulList_remove value x = (value, [], Inl ValueError))
   \<and> (x \<in> set value \<longrightarrow>
      (\<exists>i < length value. value ! i = x \<and> (\<forall>j < i. value ! j \<noteq> x)
         \<and> before_remove value x = abstracted_once (before_delitem list_getitem) value (int i)
         \<and> before_remove value x = Inr [Some (Bunch_key_old (int i) x)]
         \<and> EventfulList_remove value x =
             (take i value @ drop (Suc i) value, [Bunch_key_old (int i) x], Inr ())))"
proof -
  have absent: "x \<notin> set value \<longrightarrow>
      before_remove value x = Inl ValueError
      \<and> EventfulList_remove value x = (value, [], Inl ValueError)"
    by (simp add: EventfulList_remove_def instrumented_def keep_def before_remove_def
        list_index_def)
  have present: "x \<in> set value \<longrightarrow>
      (\<exists>i < length value. value ! i = x \<and> (\<forall>j < i. value ! j \<noteq> x)
         \<and> before_remove value x = abstracted_once (before_delitem list_getitem) value (int i)
         \<and> before_remove value x = Inr [Some (Bunch_key_old (int i) x)]
         \<and> EventfulList_remove value x =
             (take i value @ drop (Suc i) value, [Bunch_key_old (int i) x], Inr ()))"
  proof
    assume mem: "x \<in> set value"
    let ?i = "length (takeWhile (\<lambda>y. y \<noteq> x) value)"
    note idx = first_index [OF mem]
    have hook: "before_remove value x = abstracted_once (before_delitem list_getitem) value (int ?i)"
      using mem by (simp add: before_remove_def list_index_def)
    have state: "abstracted_once (before_delitem list_getitem) value (int ?i)
        = Inr [Some (Bunch_key_old (int ?i) x)]"
      using idx(1,2)
      by (simp add: abstracted_once_def before_delitem_def list_getitem_def)
    have call: "EventfulList_remove value x =
        (take ?i value @ drop (Suc ?i) value, [Bunch_key_old (int ?i) x], Inr ())"
      using mem
      by (simp add: EventfulList_remove_def instrumented_def keep_def hook state list_remove_def
          abstracted_after_def after_delitem_def List.map_filter_simps remove1_first_index)
    from idx hook state call
    show "\<exists>i < length value. value ! i = x \<and> (\<forall>j < i. value ! j \<noteq> x)
         \<and> before_remove value x = abstracted_once (before_delitem list_getitem) value (int i)
         \<and> before_remove value x = Inr [Some (Bunch_key_old (int i) x)]
         \<and> EventfulList_remove value x =
             (take i value @ drop (Suc i) value, [Bunch_key_old (int i) x], Inr ())"
      by (intro exI [of _ ?i]) simp
  qed
  from absent present show ?thesis
    by blast
qed

theorem EventfulList_remove_spec_witness:
  "(5 :: int) \<notin> set [1, 2, 3, 2]
   \<and> EventfulList_remove [1, 2, 3, 2 :: int] 5 = ([1, 2, 3, 2], [], Inl ValueError)
   \<and> (2 :: int) \<in> set [1, 2, 3, 2]
   \<and> EventfulList_remove [1, 2, 3, 2 :: int] 2 = ([1, 3, 2], [Bunch_key_old 1 2], Inr ())"
proof -
  have out: "(5 :: int) \<notin> set [1, 2, 3, 2]"
    by simp
  have mem: "(2 :: int) \<in> set [1, 2, 3, 2]"
    by simp
  from EventfulList_remove_spec [of 5 "[1, 2, 3, 2 :: int]"] out
  have a: "EventfulList_remove [1, 2, 3, 2 :: int] 5 = ([1, 2, 3, 2], [], Inl ValueError)"
    by blast
  from EventfulList_remove_spec [of 2 "[1, 2, 3, 2 :: int]"] mem
  obtain i where i: "i < length [1, 2, 3, 2 :: int]" "[1, 2, 3, 2 :: int] ! i = 2"
      "\<forall>j < i. [1, 2, 3, 2 :: int] ! j \<noteq> 2"
      "EventfulList_remove [1, 2, 3, 2 :: int] 2 =
         (take i [1, 2, 3, 2] @ drop (Suc i) [1, 2, 3, 2], [Bunch_key_old (int i) 2], Inr ())"
    by blast
  have "i \<le> 1"
  proof (rule ccontr)
    assume "\<not> i \<le> 1"
    then have "1 < i" by simp
    with i(3) have "[1, 2, 3, 2 :: int] ! 1 \<noteq> 2" by blast
    then show False by simp
  qed
  moreover have "i \<noteq> 0"
    using i(2) by (cases "i = 0") simp_all
  ultimately have "i = 1"
    by simp
  with i(4) have b: "EventfulList_remove [1, 2, 3, 2 :: int] 2 = ([1, 3, 2], [Bunch_key_old 1 2], Inr ())"
    by simp
  from out mem a b show ?thesis
    by blast
qed

section \<open>Properties of InstanceDict\<close>

text \<open>
  C9. \<open>InstanceDict.validate\<close> on a dictionary calls the target class with the entries
  as keyword arguments and validates the instance built (an exception of the constructor
  propagates); on any other value it validates the value itself. Validation returns an
  instance of the target class as it is and raises the validation error carrying the value
  otherwise.
\<close>

theorem InstanceDict_validate_spec:
  "(construct cls kwargs = Inr inst \<longrightarrow>
      InstanceDict_validate cls (PyDict kwargs) = Instance_validate cls inst)
   \<and> (construct cls kwargs = Inl e \<longrightarrow> InstanceDict_validate cls (PyDict kwargs) = Inl (Inl e))
   \<and> InstanceDict_validate cls (PyObject obj) = Instance_validate cls (PyObject obj)
   \<and> (isinstance cls v \<longrightarrow> Instance_validate cls v = Inr v)
   \<and> (\<not> isinstance cls v \<longrightarrow> Instance_validate cls v = Inl (Inr (TraitError v)))
   \<and> (\<not> isinstance cls (PyObject obj) \<longrightarrow>
        InstanceDict_validate cls (PyObject obj) = Inl (Inr (TraitError (PyObject obj))))"
  by (simp add: InstanceDict_validate_def Instance_validate_def)

theorem InstanceDict_validate_spec_witness:
  "construct Target_klass [(''a'', PyObject (Number 1))] = Inr (PyObject (Target 1))
   \<and> isinstance Target_klass (PyObject (Target 1))
   \<and> InstanceDict_validate Target_klass (PyDict [(''a'', PyObject (Number 1))]) =
        Inr (PyObject (Target 1))
   \<and> \<not> isinstance Target_klass (PyObject Other)
   \<and> InstanceDict_validate Target_klass (PyObject Other) =
        Inl (Inr (TraitError (PyObject Other)))
   \<and> construct Target_klass [(''b'', PyObject (Number 1))] = Inl TypeError
   \<and> InstanceDict_validate Target_klass (PyDict [(''b'', PyObject (Number 1))]) = Inl (Inl TypeError)"
proof -
  have c: "construct Target_klass [(''a'', PyObject (Number 1))] = Inr (PyObject (Target 1))"
    by (simp add: Target_klass_def)
  have i: "isinstance Target_klass (PyObject (Target 1))"
    by (simp add: Target_klass_def)
  have n: "\<not> isinstance Target_klass (PyObject Other)"
    by (simp add: Target_klass_def)
  have b: "construct Target_klass [(''b'', PyObject (Number 1))] = Inl TypeError"
    by (simp add: Target_klass_def)
  show ?thesis
    using c i n b
      InstanceDict_validate_spec [of Target_klass "[(''a'', PyObject (Number 1))]"
        "PyObject (Target 1)" TypeError Other "PyObject (Target 1)"]
      InstanceDict_validate_spec [of Target_klass "[(''b'', PyObject (Number 1))]"
        "PyObject (Target 1)" TypeError Other "PyObject Other"]
    by simp
qed

end
